theory Spec2Isabelle
  imports Main "HOL-Library.Word"
begin

section \<open>Go values used by pkg/validator\<close>

type_synonym byte = "8 word"

text \<open>
  A Go slice is either nil or a (possibly empty) sequence. \<open>len\<close> and \<open>range\<close> do not
  tell the two apart; \<open>append\<close> always yields a non-nil slice.
\<close>

datatype 'a slice = NilSlice | Slice "'a list"

fun elems :: "'a slice \<Rightarrow> 'a list" where
  "elems NilSlice = []"
| "elems (Slice xs) = xs"

definition len_go :: "'a slice \<Rightarrow> nat" where
  "len_go s = length (elems s)"

definition append_go :: "'a slice \<Rightarrow> 'a \<Rightarrow> 'a slice" where
  "append_go s x = Slice (elems s @ [x])"

text \<open>
  A Go \<open>error\<close> is represented by its message (what \<open>%v\<close> prints); \<open>None\<close> is the nil error.
\<close>

type_synonym go_error = string

text \<open>
  \<open>interface{}\<close> as yaml.v3 fills it for a scalar or absent node. Values of the remaining
  dynamic types (float64, time.Time, maps, sequences) are carried as \<open>AnyOther\<close> together
  with the text that \<open>%v\<close> prints for them, since that text is all the validator reads.
\<close>

datatype go_any = AnyNil | AnyString string | AnyInt int | AnyBool bool | AnyOther string

fun nat_dec :: "nat \<Rightarrow> string" where
  "nat_dec n = (if n < 10 then [''0123456789'' ! n]
                else nat_dec (n div 10) @ [''0123456789'' ! (n mod 10)])"

declare nat_dec.simps [simp del]

definition itoa :: "int \<Rightarrow> string" where
  "itoa i = (if i < 0 then CHR ''-'' # nat_dec (nat (- i)) else nat_dec (nat i))"

text \<open>\<open>fmt.Sprintf("%v", x)\<close> for \<open>x\<close> of type \<open>interface{}\<close>.\<close>

fun sprint_v :: "go_any \<Rightarrow> string" where
  "sprint_v AnyNil = ''<nil>''"
| "sprint_v (AnyString s) = s"
| "sprint_v (AnyInt i) = itoa i"
| "sprint_v (AnyBool b) = (if b then ''true'' else ''false'')"
| "sprint_v (AnyOther rendering) = rendering"

text \<open>\<open>strings.HasPrefix\<close> and \<open>strings.Join\<close>.\<close>

definition HasPrefix :: "string \<Rightarrow> string \<Rightarrow> bool" where
  "HasPrefix s p \<longleftrightarrow> length p \<le> length s \<and> take (length p) s = p"

fun Join :: "string list \<Rightarrow> string \<Rightarrow> string" where
  "Join [] sep = []"
| "Join [x] sep = x"
| "Join (x # y # ys) sep = x @ sep @ Join (y # ys) sep"

section \<open>Data model of pkg/validator/validator.go\<close>

record ValidationResult =
  IsValid :: bool
  Errors :: "string slice"
  Warnings :: "string slice"

subsection \<open>SecurityInsightsV1\<close>

record Header_V1 =
  SchemaVersion_V1 :: string
  ExpirationDate_V1 :: string
  LastUpdated_V1 :: string
  LastReviewed_V1 :: string
  ProjectURL_V1 :: string

record ProjectLifecycle_V1 =
  Status_V1 :: string
  BugFixesOnly_V1 :: bool

record ContributionPolicy_V1 =
  AcceptsPullRequests_V1 :: bool
  AcceptsAutomatedPullRequests_V1 :: bool

record SecurityContact_V1 =
  Type_V1 :: string
  Value_V1 :: string

record VulnerabilityReporting_V1 =
  AcceptsVulnerabilityReports_V1 :: bool

record SecurityInsightsV1 =
  Header_of_V1 :: Header_V1
  ProjectLifecycle_of_V1 :: ProjectLifecycle_V1
  ContributionPolicy_of_V1 :: ContributionPolicy_V1
  SecurityContacts_of_V1 :: "SecurityContact_V1 slice"
  VulnerabilityReporting_of_V1 :: VulnerabilityReporting_V1

subsection \<open>The anonymous struct the router unmarshals into\<close>

record Header_probe =
  SchemaVersion_probe :: go_any

record probe =
  Header_of_probe :: Header_probe

subsection \<open>sitooling.SecurityInsights\<close>

text \<open>
  Modelled from the spec: the type \<open>SecurityInsights\<close> of the external package
  github.com/ossf/si-tooling/v2/si, which is not part of the repository. The records hold
  the fields that \<open>validateSecurityInsightsV2\<close> reads, with the nesting the spec gives
  for the V2 shape and the types the code's own uses require (\<open>strings.HasPrefix\<close> and
  \<open>==\<close> against a \<open>string\<close> need strings, \<open>len\<close> and \<open>range\<close> need a slice).
  The three sections are struct values, always present after a successful parse, as the
  validator's unguarded reads of \<open>insights.Project\<close> and \<open>insights.Repository\<close>
  take them to be.
\<close>

record Header_SI =
  SchemaVersion_SI :: string
  LastUpdated_SI :: string
  LastReviewed_SI :: string
  URL_SI :: string

record Administrator_SI =
  Name_SI :: string
  Email_SI :: string

record Project_SI =
  ProjectName_SI :: string
  Administrators_SI :: "Administrator_SI slice"

record Repository_SI =
  RepositoryURL_SI :: string
  Status_SI :: string

record SecurityInsights_SI =
  Header_of_SI :: Header_SI
  Project_of_SI :: Project_SI
  Repository_of_SI :: Repository_SI

subsection \<open>Library calls the validator makes\<close>

text \<open>
  \<open>yaml.Unmarshal\<close> at the three target types and \<open>time.Parse(time.RFC3339, _)\<close> belong
  to gopkg.in/yaml.v3 and to the Go standard library. They are parameters of the model:
  each returns \<open>Inl\<close> of the error or \<open>Inr\<close> of the decoded value. An instant of
  \<open>time.Time\<close> is an integer (nanoseconds since the Unix epoch); \<open>a.After(b)\<close> is
  \<open>b < a\<close>.
\<close>

record libs =
  unmarshal_probe :: "byte list \<Rightarrow> go_error + probe"
  unmarshal_V1 :: "byte list \<Rightarrow> go_error + SecurityInsightsV1"
  unmarshal_SI :: "byte list \<Rightarrow> go_error + SecurityInsights_SI"
  time_Parse_RFC3339 :: "string \<Rightarrow> go_error + int"

section \<open>The validators\<close>

definition validStatuses :: "string list" where
  "validStatuses = [''active'', ''archived'', ''concept'', ''moved'', ''wip'']"

text \<open>
  The loop \<open>for _, status := range validStatuses\<close> with its \<open>break\<close>: the flag
  \<open>isValid\<close> starts false and becomes true at the first equal entry.
\<close>

fun statusLoop :: "string \<Rightarrow> string list \<Rightarrow> bool" where
  "statusLoop s [] = False"
| "statusLoop s (status # rest) = (if s = status then True else statusLoop s rest)"

text \<open>The loop \<open>for i, contact := range si.SecurityContacts\<close> of the V1 validator.\<close>

fun contactsLoop :: "int \<Rightarrow> SecurityContact_V1 list \<Rightarrow> ValidationResult \<Rightarrow> ValidationResult" where
  "contactsLoop i [] result = result"
| "contactsLoop i (contact # rest) result =
     (let result = (if Type_V1 contact = [] then
                      result\<lparr>Warnings := append_go (Warnings result)
                        (''Security contact '' @ itoa i @ '' missing type'')\<rparr>
                    else result);
          result = (if Value_V1 contact = [] then
                      result\<lparr>Warnings := append_go (Warnings result)
                        (''Security contact '' @ itoa i @ '' missing value'')\<rparr>
                    else result)
      in contactsLoop (i + 1) rest result)"

text \<open>The loop \<open>for i, admin := range insights.Project.Administrators\<close> of the V2 validator.\<close>

fun adminsLoop :: "int \<Rightarrow> Administrator_SI list \<Rightarrow> ValidationResult \<Rightarrow> ValidationResult" where
  "adminsLoop i [] result = result"
| "adminsLoop i (admin # rest) result =
     (let result = (if Name_SI admin = [] then
                      result\<lparr>Warnings := append_go (Warnings result)
                        (''Administrator '' @ itoa i @ '' missing name'')\<rparr>
                    else result);
          result = (if Email_SI admin = [] then
                      result\<lparr>Warnings := append_go (Warnings result)
                        (''Administrator '' @ itoa i @ '' missing email'')\<rparr>
                    else result)
      in adminsLoop (i + 1) rest result)"

text \<open>
  \<open>validateSecurityInsightsV1\<close>. The second argument is the reading of \<open>time.Now()\<close>,
  taken only in the branch that compares it. The function returns the pair of the Go
  source: the result and the error, which is nil on every path.
\<close>

definition validateSecurityInsightsV1 ::
  "libs \<Rightarrow> int \<Rightarrow> byte list \<Rightarrow> ValidationResult \<times> go_error option" where
  "validateSecurityInsightsV1 L now data =
    (let result = \<lparr>IsValid = True, Errors = Slice [], Warnings = Slice []\<rparr> in
     case unmarshal_V1 L data of
       Inl err \<Rightarrow>
         (result\<lparr>IsValid := False,
                 Errors := append_go (Errors result) (''Invalid YAML: '' @ err)\<rparr>, None)
     | Inr si \<Rightarrow>
        (let
          result = (if SchemaVersion_V1 (Header_of_V1 si) = [] then
                      result\<lparr>IsValid := False,
                        Errors := append_go (Errors result)
                          ''Missing required field: header.schema-version''\<rparr>
                    else result);
          result = (if ProjectURL_V1 (Header_of_V1 si) = [] then
                      result\<lparr>IsValid := False,
                        Errors := append_go (Errors result)
                          ''Missing required field: header.project-url''\<rparr>
                    else result);
          result = (if ExpirationDate_V1 (Header_of_V1 si) = [] then
                      result\<lparr>IsValid := False,
                        Errors := append_go (Errors result)
                          ''Missing required field: header.expiration-date''\<rparr>
                    else
                      (case time_Parse_RFC3339 L (ExpirationDate_V1 (Header_of_V1 si)) of
                         Inl err \<Rightarrow>
                           result\<lparr>Warnings := append_go (Warnings result)
                             ''Invalid expiration-date format (should be RFC3339)''\<rparr>
                       | Inr expirationDate \<Rightarrow>
                           if expirationDate < now then
                             result\<lparr>Warnings := append_go (Warnings result)
                               ''File has expired - please update expiration-date''\<rparr>
                           else result));
          result = (if LastUpdated_V1 (Header_of_V1 si) = [] then
                      result\<lparr>Warnings := append_go (Warnings result)
                        ''Missing recommended field: header.last-updated''\<rparr>
                    else result);
          result = (if LastReviewed_V1 (Header_of_V1 si) = [] then
                      result\<lparr>Warnings := append_go (Warnings result)
                        ''Missing recommended field: header.last-reviewed''\<rparr>
                    else result);
          result = (if Status_V1 (ProjectLifecycle_of_V1 si) = [] then
                      result\<lparr>IsValid := False,
                        Errors := append_go (Errors result)
                          ''Missing required field: project-lifecycle.status''\<rparr>
                    else if \<not> statusLoop (Status_V1 (ProjectLifecycle_of_V1 si)) validStatuses then
                      result\<lparr>Warnings := append_go (Warnings result)
                        (''Unusual project-lifecycle.status: ''
                          @ Status_V1 (ProjectLifecycle_of_V1 si)
                          @ '' (expected one of: '' @ Join validStatuses '', '' @ '')'')\<rparr>
                    else result);
          result = (if len_go (SecurityContacts_of_V1 si) = 0 then
                      result\<lparr>Warnings := append_go (Warnings result)
                        ''No security-contacts specified''\<rparr>
                    else contactsLoop 0 (elems (SecurityContacts_of_V1 si)) result)
        in (result, None)))"

text \<open>\<open>validateSecurityInsightsV2\<close>; it never reads the clock.\<close>

definition validateSecurityInsightsV2 ::
  "libs \<Rightarrow> byte list \<Rightarrow> ValidationResult \<times> go_error option" where
  "validateSecurityInsightsV2 L data =
    (let result = \<lparr>IsValid = True, Errors = Slice [], Warnings = Slice []\<rparr> in
     case unmarshal_SI L data of
       Inl err \<Rightarrow>
         (result\<lparr>IsValid := False,
                 Errors := append_go (Errors result) (''Schema validation failed: '' @ err)\<rparr>,
          None)
     | Inr insights \<Rightarrow>
        if \<not> HasPrefix (SchemaVersion_SI (Header_of_SI insights)) ''2.'' then
          (result\<lparr>IsValid := False,
                  Errors := append_go (Errors result)
                    (''Invalid schema version: '' @ SchemaVersion_SI (Header_of_SI insights)
                      @ '' (expected 2.x.x)'')\<rparr>, None)
        else
        (let
          result = (if LastUpdated_SI (Header_of_SI insights) = [] then
                      result\<lparr>Warnings := append_go (Warnings result)
                        ''Missing recommended field: header.last-updated''\<rparr>
                    else result);
          result = (if LastReviewed_SI (Header_of_SI insights) = [] then
                      result\<lparr>Warnings := append_go (Warnings result)
                        ''Missing recommended field: header.last-reviewed''\<rparr>
                    else result);
          result = (if URL_SI (Header_of_SI insights) = [] then
                      result\<lparr>IsValid := False,
                        Errors := append_go (Errors result)
                          ''Missing required field: header.url''\<rparr>
                    else result);
          result = (if ProjectName_SI (Project_of_SI insights) = [] then
                      result\<lparr>Warnings := append_go (Warnings result)
                        ''Missing recommended field: project.name''\<rparr>
                    else result);
          result = (if len_go (Administrators_SI (Project_of_SI insights)) = 0 then
                      result\<lparr>Warnings := append_go (Warnings result)
                        ''No project administrators specified''\<rparr>
                    else adminsLoop 0 (elems (Administrators_SI (Project_of_SI insights))) result);
          result = (if RepositoryURL_SI (Repository_of_SI insights) = [] then
                      result\<lparr>IsValid := False,
                        Errors := append_go (Errors result)
                          ''Missing required field: repository.url''\<rparr>
                    else result);
          result = (if Status_SI (Repository_of_SI insights) = [] then
                      result\<lparr>IsValid := False,
                        Errors := append_go (Errors result)
                          ''Missing required field: repository.status''\<rparr>
                    else if \<not> statusLoop (Status_SI (Repository_of_SI insights)) validStatuses then
                      result\<lparr>Warnings := append_go (Warnings result)
                        (''Unusual repository.status: ''
                          @ Status_SI (Repository_of_SI insights)
                          @ '' (expected one of: '' @ Join validStatuses '', '' @ '')'')\<rparr>
                    else result)
        in (result, None)))"

text \<open>\<open>validateSecurityInsights\<close>: the router.\<close>

definition validateSecurityInsights ::
  "libs \<Rightarrow> int \<Rightarrow> byte list \<Rightarrow> ValidationResult \<times> go_error option" where
  "validateSecurityInsights L now data =
    (let result = \<lparr>IsValid = True, Errors = Slice [], Warnings = Slice []\<rparr> in
     case unmarshal_probe L data of
       Inl err \<Rightarrow>
         (result\<lparr>IsValid := False,
                 Errors := append_go (Errors result) (''Invalid YAML: '' @ err)\<rparr>, None)
     | Inr header \<Rightarrow>
        (let schemaVersion = sprint_v (SchemaVersion_probe (Header_of_probe header)) in
         if HasPrefix schemaVersion ''2.'' then validateSecurityInsightsV2 L data
         else validateSecurityInsightsV1 L now data))"

section \<open>The statements of the validators as result transformers\<close>

text \<open>
  Both validators are a sequence of statements that update \<open>result\<close>. The definitions
  below name the statement forms that occur, so that the validators can be read as a
  composition of steps: \<open>failIf\<close> is \<open>if c { result.IsValid = false; result.Errors =
  append(result.Errors, m) }\<close>, \<open>warnIf\<close> is \<open>if c { result.Warnings =
  append(result.Warnings, m) }\<close>, and the other four are the blocks on
  \<open>expiration-date\<close>, on the status field, on \<open>security-contacts\<close> and on the
  administrators, word for word as in the validators above.
\<close>

definition failIf :: "bool \<Rightarrow> string \<Rightarrow> ValidationResult \<Rightarrow> ValidationResult" where
  "failIf c m result =
     (if c then result\<lparr>IsValid := False, Errors := append_go (Errors result) m\<rparr> else result)"

definition warnIf :: "bool \<Rightarrow> string \<Rightarrow> ValidationResult \<Rightarrow> ValidationResult" where
  "warnIf c m result =
     (if c then result\<lparr>Warnings := append_go (Warnings result) m\<rparr> else result)"

definition expirationStep :: "libs \<Rightarrow> int \<Rightarrow> string \<Rightarrow> ValidationResult \<Rightarrow> ValidationResult" where
  "expirationStep L now d result =
     (if d = [] then
        result\<lparr>IsValid := False,
          Errors := append_go (Errors result)
            ''Missing required field: header.expiration-date''\<rparr>
      else
        (case time_Parse_RFC3339 L d of
           Inl err \<Rightarrow>
             result\<lparr>Warnings := append_go (Warnings result)
               ''Invalid expiration-date format (should be RFC3339)''\<rparr>
         | Inr expirationDate \<Rightarrow>
             if expirationDate < now then
               result\<lparr>Warnings := append_go (Warnings result)
                 ''File has expired - please update expiration-date''\<rparr>
             else result))"

definition statusStep :: "string \<Rightarrow> string \<Rightarrow> string \<Rightarrow> ValidationResult \<Rightarrow> ValidationResult" where
  "statusStep s m w result =
     (if s = [] then
        result\<lparr>IsValid := False, Errors := append_go (Errors result) m\<rparr>
      else if \<not> statusLoop s validStatuses then
        result\<lparr>Warnings := append_go (Warnings result) w\<rparr>
      else result)"

definition contactsStep :: "SecurityContact_V1 slice \<Rightarrow> ValidationResult \<Rightarrow> ValidationResult" where
  "contactsStep cs result =
     (if len_go cs = 0 then
        result\<lparr>Warnings := append_go (Warnings result) ''No security-contacts specified''\<rparr>
      else contactsLoop 0 (elems cs) result)"

definition adminsStep :: "Administrator_SI slice \<Rightarrow> ValidationResult \<Rightarrow> ValidationResult" where
  "adminsStep as result =
     (if len_go as = 0 then
        result\<lparr>Warnings := append_go (Warnings result) ''No project administrators specified''\<rparr>
      else adminsLoop 0 (elems as) result)"

section \<open>The lists a full run builds\<close>

text \<open>
  The errors and warnings of a run, read off the validators as functions of the parsed
  document. The warnings of the two \<open>range\<close> loops are left out: they sit in the place
  the loops have in the order of the statements (last in V1, between the project name
  and the repository status in V2).
\<close>

definition errors_V1 :: "SecurityInsightsV1 \<Rightarrow> string list" where
  "errors_V1 si =
     (if SchemaVersion_V1 (Header_of_V1 si) = []
      then [''Missing required field: header.schema-version''] else []) @
     (if ProjectURL_V1 (Header_of_V1 si) = []
      then [''Missing required field: header.project-url''] else []) @
     (if ExpirationDate_V1 (Header_of_V1 si) = []
      then [''Missing required field: header.expiration-date''] else []) @
     (if Status_V1 (ProjectLifecycle_of_V1 si) = []
      then [''Missing required field: project-lifecycle.status''] else [])"

definition warnings_V1 :: "libs \<Rightarrow> int \<Rightarrow> SecurityInsightsV1 \<Rightarrow> string list" where
  "warnings_V1 L now si =
     (if ExpirationDate_V1 (Header_of_V1 si) = [] then []
      else case time_Parse_RFC3339 L (ExpirationDate_V1 (Header_of_V1 si)) of
             Inl err \<Rightarrow> [''Invalid expiration-date format (should be RFC3339)'']
           | Inr t \<Rightarrow> if t < now
                      then [''File has expired - please update expiration-date'']
                      else []) @
     (if LastUpdated_V1 (Header_of_V1 si) = []
      then [''Missing recommended field: header.last-updated''] else []) @
     (if LastReviewed_V1 (Header_of_V1 si) = []
      then [''Missing recommended field: header.last-reviewed''] else []) @
     (if Status_V1 (ProjectLifecycle_of_V1 si) \<noteq> [] \<and>
         Status_V1 (ProjectLifecycle_of_V1 si) \<notin> set validStatuses
      then [''Unusual project-lifecycle.status: '' @ Status_V1 (ProjectLifecycle_of_V1 si)
             @ '' (expected one of: '' @ Join validStatuses '', '' @ '')'']
      else [])"

definition errors_V2 :: "SecurityInsights_SI \<Rightarrow> string list" where
  "errors_V2 insights =
     (if URL_SI (Header_of_SI insights) = []
      then [''Missing required field: header.url''] else []) @
     (if RepositoryURL_SI (Repository_of_SI insights) = []
      then [''Missing required field: repository.url''] else []) @
     (if Status_SI (Repository_of_SI insights) = []
      then [''Missing required field: repository.status''] else [])"

definition warnings_V2_project :: "SecurityInsights_SI \<Rightarrow> string list" where
  "warnings_V2_project insights =
     (if LastUpdated_SI (Header_of_SI insights) = []
      then [''Missing recommended field: header.last-updated''] else []) @
     (if LastReviewed_SI (Header_of_SI insights) = []
      then [''Missing recommended field: header.last-reviewed''] else []) @
     (if ProjectName_SI (Project_of_SI insights) = []
      then [''Missing recommended field: project.name''] else [])"

definition warnings_V2_status :: "SecurityInsights_SI \<Rightarrow> string list" where
  "warnings_V2_status insights =
     (if Status_SI (Repository_of_SI insights) \<noteq> [] \<and>
         Status_SI (Repository_of_SI insights) \<notin> set validStatuses
      then [''Unusual repository.status: '' @ Status_SI (Repository_of_SI insights)
             @ '' (expected one of: '' @ Join validStatuses '', '' @ '')'']
      else [])"

section \<open>Concrete inputs\<close>

text \<open>
  Stand-ins for the library calls, used to run the validators on concrete documents:
  every \<open>Unmarshal\<close> returns a fixed outcome, and the time parser knows the two
  timestamps of validator_test.go (as nanoseconds since the epoch) and rejects every
  other string.
\<close>

definition stub_time_Parse :: "string \<Rightarrow> go_error + int" where
  "stub_time_Parse s =
     (if s = ''2020-01-01T00:00:00Z'' then Inr 1577836800000000000
      else if s = ''2026-12-31T23:59:59Z'' then Inr 1798761599000000000
      else Inl ''parsing time: cannot parse as RFC3339'')"

definition stub_libs ::
  "go_error + probe \<Rightarrow> go_error + SecurityInsightsV1 \<Rightarrow> go_error + SecurityInsights_SI \<Rightarrow> libs" where
  "stub_libs p v1 v2 =
     \<lparr>unmarshal_probe = (\<lambda>data. p), unmarshal_V1 = (\<lambda>data. v1), unmarshal_SI = (\<lambda>data. v2),
      time_Parse_RFC3339 = stub_time_Parse\<rparr>"

definition probe_of :: "go_any \<Rightarrow> probe" where
  "probe_of v = \<lparr>Header_of_probe = \<lparr>SchemaVersion_probe = v\<rparr>\<rparr>"

text \<open>A V1 document given by its six checked fields; the other fields are false.\<close>

definition doc_V1 ::
  "string \<Rightarrow> string \<Rightarrow> string \<Rightarrow> string \<Rightarrow> string \<Rightarrow> string \<Rightarrow> SecurityContact_V1 slice
     \<Rightarrow> SecurityInsightsV1" where
  "doc_V1 version expiration updated reviewed url status contacts =
     \<lparr>Header_of_V1 = \<lparr>SchemaVersion_V1 = version, ExpirationDate_V1 = expiration,
        LastUpdated_V1 = updated, LastReviewed_V1 = reviewed, ProjectURL_V1 = url\<rparr>,
      ProjectLifecycle_of_V1 = \<lparr>Status_V1 = status, BugFixesOnly_V1 = False\<rparr>,
      ContributionPolicy_of_V1 =
        \<lparr>AcceptsPullRequests_V1 = False, AcceptsAutomatedPullRequests_V1 = False\<rparr>,
      SecurityContacts_of_V1 = contacts,
      VulnerabilityReporting_of_V1 = \<lparr>AcceptsVulnerabilityReports_V1 = False\<rparr>\<rparr>"

definition doc_SI ::
  "string \<Rightarrow> string \<Rightarrow> string \<Rightarrow> string \<Rightarrow> string \<Rightarrow> Administrator_SI slice \<Rightarrow> string \<Rightarrow> string
     \<Rightarrow> SecurityInsights_SI" where
  "doc_SI version updated reviewed url name admins repo status =
     \<lparr>Header_of_SI = \<lparr>SchemaVersion_SI = version, LastUpdated_SI = updated,
        LastReviewed_SI = reviewed, URL_SI = url\<rparr>,
      Project_of_SI = \<lparr>ProjectName_SI = name, Administrators_SI = admins\<rparr>,
      Repository_of_SI = \<lparr>RepositoryURL_SI = repo, Status_SI = status\<rparr>\<rparr>"

text \<open>
  The "valid minimal file" of validator_test.go, with its expiration date and its status
  as parameters, and a complete V2 document with its status as parameter.
\<close>

definition example_V1 :: "string \<Rightarrow> string \<Rightarrow> SecurityInsightsV1" where
  "example_V1 expiration status =
     doc_V1 ''1.0.0'' expiration ''2025-01-01T00:00:00Z'' ''2025-01-01T00:00:00Z''
       ''https://github.com/example/repo'' status
       (Slice [\<lparr>Type_V1 = ''email'', Value_V1 = ''security@example.com''\<rparr>])"

definition example_SI :: "string \<Rightarrow> SecurityInsights_SI" where
  "example_SI status =
     doc_SI ''2.0.0'' ''2025-01-01'' ''2025-01-01'' ''https://example.com/security-insights.yml''
       ''example'' (Slice [\<lparr>Name_SI = ''Maintainer'', Email_SI = ''maintainer@example.com''\<rparr>])
       ''https://github.com/example/repo'' status"

text \<open>
  The "missing required fields" file of validator_test.go, and a V2 document whose three
  required fields are empty.
\<close>

definition missing_V1 :: SecurityInsightsV1 where
  "missing_V1 = doc_V1 [] [] [] [] [] [] NilSlice"

definition missing_SI :: SecurityInsights_SI where
  "missing_SI = doc_SI ''2.0.0'' ''2025-01-01'' ''2025-01-01'' [] ''example'' NilSlice [] []"

text \<open>
  Library stand-ins under which the bytes decode to a given V1 document, or to a given V2
  document; the router's probe sees the document's own version string.
\<close>

definition libs_V1 :: "SecurityInsightsV1 \<Rightarrow> libs" where
  "libs_V1 doc =
     stub_libs (Inr (probe_of (AnyString (SchemaVersion_V1 (Header_of_V1 doc))))) (Inr doc)
       (Inl ''not decoded'')"

definition libs_SI :: "SecurityInsights_SI \<Rightarrow> libs" where
  "libs_SI doc =
     stub_libs (Inr (probe_of (AnyString (SchemaVersion_SI (Header_of_SI doc)))))
       (Inl ''not decoded'') (Inr doc)"

text \<open>1 January 2026, 00:00 UTC.\<close>

definition now_2026 :: int where
  "now_2026 = 1767225600000000000"

text \<open>
  The five bytes \<open>hello\<close>: a YAML document that is well-formed (one plain scalar) and
  that \<open>yaml.Unmarshal\<close> rejects at each of the three struct types, since a scalar
  cannot fill a struct. The messages are the ones yaml.v3 gives, each naming its target
  type, with line breaks and quotation marks left out.
\<close>

definition hello :: "byte list" where
  "hello = [104, 101, 108, 108, 111]"

definition hello_libs :: libs where
  "hello_libs =
     stub_libs
       (Inl ''yaml: unmarshal errors: line 1: cannot unmarshal !!str hello into struct { Header struct { SchemaVersion interface {} } }'')
       (Inl ''yaml: unmarshal errors: line 1: cannot unmarshal !!str hello into validator.SecurityInsightsV1'')
       (Inl ''yaml: unmarshal errors: line 1: cannot unmarshal !!str hello into si.SecurityInsights'')"

section \<open>Facts about the string functions\<close>

lemma HasPrefix_Nil [simp]: "HasPrefix s []"
  by (simp add: HasPrefix_def)

lemma HasPrefix_Nil_Cons [simp]: "\<not> HasPrefix [] (d # p)"
  by (simp add: HasPrefix_def)

lemma HasPrefix_Cons [simp]: "HasPrefix (c # s) (d # p) \<longleftrightarrow> c = d \<and> HasPrefix s p"
  by (auto simp add: HasPrefix_def)

section \<open>The validators as compositions of steps\<close>

lemma V1_steps:
  assumes "unmarshal_V1 L data = Inr si"
  shows "validateSecurityInsightsV1 L now data =
    (contactsStep (SecurityContacts_of_V1 si)
      (statusStep (Status_V1 (ProjectLifecycle_of_V1 si))
          ''Missing required field: project-lifecycle.status''
          (''Unusual project-lifecycle.status: '' @ Status_V1 (ProjectLifecycle_of_V1 si)
             @ '' (expected one of: '' @ Join validStatuses '', '' @ '')'')
        (warnIf (LastReviewed_V1 (Header_of_V1 si) = [])
            ''Missing recommended field: header.last-reviewed''
          (warnIf (LastUpdated_V1 (Header_of_V1 si) = [])
              ''Missing recommended field: header.last-updated''
            (expirationStep L now (ExpirationDate_V1 (Header_of_V1 si))
              (failIf (ProjectURL_V1 (Header_of_V1 si) = [])
                  ''Missing required field: header.project-url''
                (failIf (SchemaVersion_V1 (Header_of_V1 si) = [])
                    ''Missing required field: header.schema-version''
                  \<lparr>IsValid = True, Errors = Slice [], Warnings = Slice []\<rparr>)))))),
     None)"
  unfolding validateSecurityInsightsV1_def
  apply (simp only: expirationStep_def [symmetric] statusStep_def [symmetric]
      contactsStep_def [symmetric])
  apply (simp only: failIf_def [symmetric] warnIf_def [symmetric])
  apply (simp only: Let_def assms sum.case)
  done

lemma V2_steps:
  assumes "unmarshal_SI L data = Inr insights"
    and "HasPrefix (SchemaVersion_SI (Header_of_SI insights)) ''2.''"
  shows "validateSecurityInsightsV2 L data =
    (statusStep (Status_SI (Repository_of_SI insights))
        ''Missing required field: repository.status''
        (''Unusual repository.status: '' @ Status_SI (Repository_of_SI insights)
           @ '' (expected one of: '' @ Join validStatuses '', '' @ '')'')
      (failIf (RepositoryURL_SI (Repository_of_SI insights) = [])
          ''Missing required field: repository.url''
        (adminsStep (Administrators_SI (Project_of_SI insights))
          (warnIf (ProjectName_SI (Project_of_SI insights) = [])
              ''Missing recommended field: project.name''
            (failIf (URL_SI (Header_of_SI insights) = [])
                ''Missing required field: header.url''
              (warnIf (LastReviewed_SI (Header_of_SI insights) = [])
                  ''Missing recommended field: header.last-reviewed''
                (warnIf (LastUpdated_SI (Header_of_SI insights) = [])
                    ''Missing recommended field: header.last-updated''
                  \<lparr>IsValid = True, Errors = Slice [], Warnings = Slice []\<rparr>)))))),
     None)"
  unfolding validateSecurityInsightsV2_def
  apply (simp only: statusStep_def [symmetric] adminsStep_def [symmetric])
  apply (simp only: failIf_def [symmetric] warnIf_def [symmetric])
  apply (simp only: Let_def assms sum.case not_True_eq_False if_False)
  done

section \<open>The early exits\<close>

lemma V1_parse_failure:
  "unmarshal_V1 L data = Inl err \<Longrightarrow>
   validateSecurityInsightsV1 L now data =
     (\<lparr>IsValid = False, Errors = Slice [''Invalid YAML: '' @ err], Warnings = Slice []\<rparr>, None)"
  by (simp add: validateSecurityInsightsV1_def append_go_def)

lemma V2_parse_failure:
  "unmarshal_SI L data = Inl err \<Longrightarrow>
   validateSecurityInsightsV2 L data =
     (\<lparr>IsValid = False, Errors = Slice [''Schema validation failed: '' @ err],
       Warnings = Slice []\<rparr>, None)"
  by (simp add: validateSecurityInsightsV2_def append_go_def)

lemma V2_version_mismatch:
  "unmarshal_SI L data = Inr insights \<Longrightarrow>
   \<not> HasPrefix (SchemaVersion_SI (Header_of_SI insights)) ''2.'' \<Longrightarrow>
   validateSecurityInsightsV2 L data =
     (\<lparr>IsValid = False,
       Errors = Slice [''Invalid schema version: '' @ SchemaVersion_SI (Header_of_SI insights)
                        @ '' (expected 2.x.x)''],
       Warnings = Slice []\<rparr>, None)"
  by (simp add: validateSecurityInsightsV2_def append_go_def)

lemma router_parse_failure:
  "unmarshal_probe L data = Inl err \<Longrightarrow>
   validateSecurityInsights L now data =
     (\<lparr>IsValid = False, Errors = Slice [''Invalid YAML: '' @ err], Warnings = Slice []\<rparr>, None)"
  by (simp add: validateSecurityInsights_def append_go_def)

lemma router_dispatch:
  "unmarshal_probe L data = Inr header \<Longrightarrow>
   validateSecurityInsights L now data =
     (if HasPrefix (sprint_v (SchemaVersion_probe (Header_of_probe header))) ''2.''
      then validateSecurityInsightsV2 L data
      else validateSecurityInsightsV1 L now data)"
  by (simp add: validateSecurityInsights_def)

section \<open>What each step does to a result\<close>

lemma statusLoop_iff: "statusLoop s xs \<longleftrightarrow> s \<in> set xs"
  by (induction xs) auto

lemma failIf_result:
  "failIf c m \<lparr>IsValid = v, Errors = Slice es, Warnings = ws\<rparr> =
     \<lparr>IsValid = (v \<and> \<not> c), Errors = Slice (es @ (if c then [m] else [])), Warnings = ws\<rparr>"
  by (simp add: failIf_def append_go_def)

lemma warnIf_result:
  "warnIf c m \<lparr>IsValid = v, Errors = es, Warnings = Slice ws\<rparr> =
     \<lparr>IsValid = v, Errors = es, Warnings = Slice (ws @ (if c then [m] else []))\<rparr>"
  by (simp add: warnIf_def append_go_def)

lemma expirationStep_result:
  "expirationStep L now d \<lparr>IsValid = v, Errors = Slice es, Warnings = Slice ws\<rparr> =
     \<lparr>IsValid = (v \<and> d \<noteq> []),
      Errors = Slice (es @ (if d = [] then [''Missing required field: header.expiration-date'']
                            else [])),
      Warnings = Slice (ws @
        (if d = [] then []
         else case time_Parse_RFC3339 L d of
                Inl err \<Rightarrow> [''Invalid expiration-date format (should be RFC3339)'']
              | Inr t \<Rightarrow> if t < now then [''File has expired - please update expiration-date'']
                         else []))\<rparr>"
  by (simp add: expirationStep_def append_go_def split: sum.splits)

lemma statusStep_result:
  "statusStep s m w \<lparr>IsValid = v, Errors = Slice es, Warnings = Slice ws\<rparr> =
     \<lparr>IsValid = (v \<and> s \<noteq> []),
      Errors = Slice (es @ (if s = [] then [m] else [])),
      Warnings = Slice (ws @ (if s \<noteq> [] \<and> s \<notin> set validStatuses then [w] else []))\<rparr>"
  by (simp add: statusStep_def append_go_def statusLoop_iff)

lemma contactsLoop_result:
  "\<exists>cw. contactsLoop i cs \<lparr>IsValid = v, Errors = es, Warnings = Slice ws\<rparr> =
          \<lparr>IsValid = v, Errors = es, Warnings = Slice (ws @ cw)\<rparr> \<and>
        (\<forall>w \<in> set cw. HasPrefix w ''Security contact '')"
proof (induction cs arbitrary: i ws)
  case Nil
  have "contactsLoop i [] \<lparr>IsValid = v, Errors = es, Warnings = Slice ws\<rparr> =
          \<lparr>IsValid = v, Errors = es, Warnings = Slice (ws @ [])\<rparr>"
    by simp
  then show ?case by fastforce
next
  case (Cons c cs)
  define here where "here =
    (if Type_V1 c = [] then [''Security contact '' @ itoa i @ '' missing type''] else []) @
    (if Value_V1 c = [] then [''Security contact '' @ itoa i @ '' missing value''] else [])"
  have step: "contactsLoop i (c # cs) \<lparr>IsValid = v, Errors = es, Warnings = Slice ws\<rparr> =
      contactsLoop (i + 1) cs \<lparr>IsValid = v, Errors = es, Warnings = Slice (ws @ here)\<rparr>"
    by (simp add: here_def Let_def append_go_def)
  have here: "\<forall>w \<in> set here. HasPrefix w ''Security contact ''"
    by (auto simp add: here_def)
  from Cons.IH [of "i + 1" "ws @ here"] obtain cw where
    cw: "contactsLoop (i + 1) cs \<lparr>IsValid = v, Errors = es, Warnings = Slice (ws @ here)\<rparr> =
          \<lparr>IsValid = v, Errors = es, Warnings = Slice ((ws @ here) @ cw)\<rparr>"
      "\<forall>w \<in> set cw. HasPrefix w ''Security contact ''"
    by blast
  have "contactsLoop i (c # cs) \<lparr>IsValid = v, Errors = es, Warnings = Slice ws\<rparr> =
          \<lparr>IsValid = v, Errors = es, Warnings = Slice (ws @ (here @ cw))\<rparr>"
    using step cw(1) by simp
  moreover have "\<forall>w \<in> set (here @ cw). HasPrefix w ''Security contact ''"
    using here cw(2) by auto
  ultimately show ?case by blast
qed

lemma contactsStep_result:
  "\<exists>cw. contactsStep cs \<lparr>IsValid = v, Errors = es, Warnings = Slice ws\<rparr> =
          \<lparr>IsValid = v, Errors = es, Warnings = Slice (ws @ cw)\<rparr> \<and>
        (\<forall>w \<in> set cw. w = ''No security-contacts specified'' \<or>
                        HasPrefix w ''Security contact '')"
proof (cases "len_go cs = 0")
  case True
  then have "contactsStep cs \<lparr>IsValid = v, Errors = es, Warnings = Slice ws\<rparr> =
      \<lparr>IsValid = v, Errors = es, Warnings = Slice (ws @ [''No security-contacts specified''])\<rparr>"
    by (simp add: contactsStep_def append_go_def)
  then show ?thesis by fastforce
next
  case False
  then have "contactsStep cs \<lparr>IsValid = v, Errors = es, Warnings = Slice ws\<rparr> =
      contactsLoop 0 (elems cs) \<lparr>IsValid = v, Errors = es, Warnings = Slice ws\<rparr>"
    by (simp add: contactsStep_def)
  with contactsLoop_result [of 0 "elems cs" v es ws] show ?thesis by auto
qed

lemma adminsLoop_result:
  "\<exists>aw. adminsLoop i as \<lparr>IsValid = v, Errors = es, Warnings = Slice ws\<rparr> =
          \<lparr>IsValid = v, Errors = es, Warnings = Slice (ws @ aw)\<rparr> \<and>
        (\<forall>w \<in> set aw. HasPrefix w ''Administrator '')"
proof (induction as arbitrary: i ws)
  case Nil
  have "adminsLoop i [] \<lparr>IsValid = v, Errors = es, Warnings = Slice ws\<rparr> =
          \<lparr>IsValid = v, Errors = es, Warnings = Slice (ws @ [])\<rparr>"
    by simp
  then show ?case by fastforce
next
  case (Cons a as)
  define here where "here =
    (if Name_SI a = [] then [''Administrator '' @ itoa i @ '' missing name''] else []) @
    (if Email_SI a = [] then [''Administrator '' @ itoa i @ '' missing email''] else [])"
  have step: "adminsLoop i (a # as) \<lparr>IsValid = v, Errors = es, Warnings = Slice ws\<rparr> =
      adminsLoop (i + 1) as \<lparr>IsValid = v, Errors = es, Warnings = Slice (ws @ here)\<rparr>"
    by (simp add: here_def Let_def append_go_def)
  have here: "\<forall>w \<in> set here. HasPrefix w ''Administrator ''"
    by (auto simp add: here_def)
  from Cons.IH [of "i + 1" "ws @ here"] obtain aw where
    aw: "adminsLoop (i + 1) as \<lparr>IsValid = v, Errors = es, Warnings = Slice (ws @ here)\<rparr> =
          \<lparr>IsValid = v, Errors = es, Warnings = Slice ((ws @ here) @ aw)\<rparr>"
      "\<forall>w \<in> set aw. HasPrefix w ''Administrator ''"
    by blast
  have "adminsLoop i (a # as) \<lparr>IsValid = v, Errors = es, Warnings = Slice ws\<rparr> =
          \<lparr>IsValid = v, Errors = es, Warnings = Slice (ws @ (here @ aw))\<rparr>"
    using step aw(1) by simp
  moreover have "\<forall>w \<in> set (here @ aw). HasPrefix w ''Administrator ''"
    using here aw(2) by auto
  ultimately show ?case by blast
qed

lemma adminsStep_result:
  "\<exists>aw. adminsStep as \<lparr>IsValid = v, Errors = es, Warnings = Slice ws\<rparr> =
          \<lparr>IsValid = v, Errors = es, Warnings = Slice (ws @ aw)\<rparr> \<and>
        (\<forall>w \<in> set aw. w = ''No project administrators specified'' \<or>
                        HasPrefix w ''Administrator '')"
proof (cases "len_go as = 0")
  case True
  then have "adminsStep as \<lparr>IsValid = v, Errors = es, Warnings = Slice ws\<rparr> =
      \<lparr>IsValid = v, Errors = es,
       Warnings = Slice (ws @ [''No project administrators specified''])\<rparr>"
    by (simp add: adminsStep_def append_go_def)
  then show ?thesis by fastforce
next
  case False
  then have "adminsStep as \<lparr>IsValid = v, Errors = es, Warnings = Slice ws\<rparr> =
      adminsLoop 0 (elems as) \<lparr>IsValid = v, Errors = es, Warnings = Slice ws\<rparr>"
    by (simp add: adminsStep_def)
  with adminsLoop_result [of 0 "elems as" v es ws] show ?thesis by auto
qed

section \<open>The result of a full run\<close>

lemma errors_V1_empty_iff:
  "errors_V1 si = [] \<longleftrightarrow>
     SchemaVersion_V1 (Header_of_V1 si) \<noteq> [] \<and> ProjectURL_V1 (Header_of_V1 si) \<noteq> [] \<and>
     ExpirationDate_V1 (Header_of_V1 si) \<noteq> [] \<and> Status_V1 (ProjectLifecycle_of_V1 si) \<noteq> []"
  by (simp add: errors_V1_def)

lemma errors_V2_empty_iff:
  "errors_V2 insights = [] \<longleftrightarrow>
     URL_SI (Header_of_SI insights) \<noteq> [] \<and>
     RepositoryURL_SI (Repository_of_SI insights) \<noteq> [] \<and>
     Status_SI (Repository_of_SI insights) \<noteq> []"
  by (simp add: errors_V2_def)

lemma V1_result:
  assumes "unmarshal_V1 L data = Inr si"
  shows "\<exists>cw. validateSecurityInsightsV1 L now data =
      (\<lparr>IsValid = (errors_V1 si = []), Errors = Slice (errors_V1 si),
        Warnings = Slice (warnings_V1 L now si @ cw)\<rparr>, None) \<and>
    (\<forall>w \<in> set cw. w = ''No security-contacts specified'' \<or> HasPrefix w ''Security contact '')"
proof -
  have before_contacts:
    "statusStep (Status_V1 (ProjectLifecycle_of_V1 si))
        ''Missing required field: project-lifecycle.status''
        (''Unusual project-lifecycle.status: '' @ Status_V1 (ProjectLifecycle_of_V1 si)
           @ '' (expected one of: '' @ Join validStatuses '', '' @ '')'')
      (warnIf (LastReviewed_V1 (Header_of_V1 si) = [])
          ''Missing recommended field: header.last-reviewed''
        (warnIf (LastUpdated_V1 (Header_of_V1 si) = [])
            ''Missing recommended field: header.last-updated''
          (expirationStep L now (ExpirationDate_V1 (Header_of_V1 si))
            (failIf (ProjectURL_V1 (Header_of_V1 si) = [])
                ''Missing required field: header.project-url''
              (failIf (SchemaVersion_V1 (Header_of_V1 si) = [])
                  ''Missing required field: header.schema-version''
                \<lparr>IsValid = True, Errors = Slice [], Warnings = Slice []\<rparr>))))) =
     \<lparr>IsValid = (errors_V1 si = []), Errors = Slice (errors_V1 si),
      Warnings = Slice (warnings_V1 L now si)\<rparr>"
    unfolding errors_V1_empty_iff
    unfolding failIf_result warnIf_result expirationStep_result statusStep_result
      errors_V1_def warnings_V1_def
    by (simp only: append_Nil append_assoc conj_assoc simp_thms)
  from contactsStep_result [of "SecurityContacts_of_V1 si" "errors_V1 si = []"
      "Slice (errors_V1 si)" "warnings_V1 L now si"]
  obtain cw where
    cw: "contactsStep (SecurityContacts_of_V1 si)
           \<lparr>IsValid = (errors_V1 si = []), Errors = Slice (errors_V1 si),
            Warnings = Slice (warnings_V1 L now si)\<rparr> =
         \<lparr>IsValid = (errors_V1 si = []), Errors = Slice (errors_V1 si),
          Warnings = Slice (warnings_V1 L now si @ cw)\<rparr>"
      "\<forall>w \<in> set cw. w = ''No security-contacts specified'' \<or> HasPrefix w ''Security contact ''"
    by blast
  have "validateSecurityInsightsV1 L now data =
      (\<lparr>IsValid = (errors_V1 si = []), Errors = Slice (errors_V1 si),
        Warnings = Slice (warnings_V1 L now si @ cw)\<rparr>, None)"
    by (simp only: V1_steps [OF assms] before_contacts cw(1))
  with cw(2) show ?thesis by blast
qed

lemma V2_result:
  assumes "unmarshal_SI L data = Inr insights"
    and "HasPrefix (SchemaVersion_SI (Header_of_SI insights)) ''2.''"
  shows "\<exists>aw. validateSecurityInsightsV2 L data =
      (\<lparr>IsValid = (errors_V2 insights = []), Errors = Slice (errors_V2 insights),
        Warnings = Slice (warnings_V2_project insights @ aw @ warnings_V2_status insights)\<rparr>,
       None) \<and>
    (\<forall>w \<in> set aw. w = ''No project administrators specified'' \<or>
                    HasPrefix w ''Administrator '')"
proof -
  define v where "v \<longleftrightarrow> URL_SI (Header_of_SI insights) \<noteq> []"
  define es where "es =
          (if URL_SI (Header_of_SI insights) = []
           then [''Missing required field: header.url''] else [])"
  have before_admins:
    "warnIf (ProjectName_SI (Project_of_SI insights) = [])
        ''Missing recommended field: project.name''
      (failIf (URL_SI (Header_of_SI insights) = [])
          ''Missing required field: header.url''
        (warnIf (LastReviewed_SI (Header_of_SI insights) = [])
            ''Missing recommended field: header.last-reviewed''
          (warnIf (LastUpdated_SI (Header_of_SI insights) = [])
              ''Missing recommended field: header.last-updated''
            \<lparr>IsValid = True, Errors = Slice [], Warnings = Slice []\<rparr>))) =
     \<lparr>IsValid = v, Errors = Slice es, Warnings = Slice (warnings_V2_project insights)\<rparr>"
    unfolding failIf_result warnIf_result v_def es_def warnings_V2_project_def
    by (simp only: append_Nil append_assoc conj_assoc simp_thms)
  from adminsStep_result [of "Administrators_SI (Project_of_SI insights)" v "Slice es"
      "warnings_V2_project insights"]
  obtain aw where
    aw: "adminsStep (Administrators_SI (Project_of_SI insights))
           \<lparr>IsValid = v, Errors = Slice es, Warnings = Slice (warnings_V2_project insights)\<rparr> =
         \<lparr>IsValid = v, Errors = Slice es,
          Warnings = Slice (warnings_V2_project insights @ aw)\<rparr>"
      "\<forall>w \<in> set aw. w = ''No project administrators specified'' \<or>
                      HasPrefix w ''Administrator ''"
    by blast
  have "validateSecurityInsightsV2 L data =
      (\<lparr>IsValid = (errors_V2 insights = []), Errors = Slice (errors_V2 insights),
        Warnings = Slice (warnings_V2_project insights @ aw @ warnings_V2_status insights)\<rparr>,
       None)"
    unfolding errors_V2_empty_iff
    apply (simp only: V2_steps [OF assms] before_admins aw(1) failIf_result statusStep_result)
    apply (simp only: v_def es_def errors_V2_def warnings_V2_status_def append_assoc
        conj_assoc simp_thms)
    done
  with aw(2) show ?thesis by blast
qed

section \<open>The shape of every result\<close>

lemma V1_shape:
  "\<exists>es ws. validateSecurityInsightsV1 L now data =
     (\<lparr>IsValid = (es = []), Errors = Slice es, Warnings = Slice ws\<rparr>, None)"
proof (cases "unmarshal_V1 L data")
  case (Inl err)
  define m where "m = ''Invalid YAML: '' @ err"
  have "validateSecurityInsightsV1 L now data =
      (\<lparr>IsValid = ([m] = []), Errors = Slice [m], Warnings = Slice []\<rparr>, None)"
    using V1_parse_failure [OF Inl, of now] by (simp add: m_def)
  then show ?thesis by blast
next
  case (Inr si)
  from V1_result [OF Inr, of now] show ?thesis by blast
qed

lemma V2_shape:
  "\<exists>es ws. validateSecurityInsightsV2 L data =
     (\<lparr>IsValid = (es = []), Errors = Slice es, Warnings = Slice ws\<rparr>, None)"
proof (cases "unmarshal_SI L data")
  case (Inl err)
  define m where "m = ''Schema validation failed: '' @ err"
  have "validateSecurityInsightsV2 L data =
      (\<lparr>IsValid = ([m] = []), Errors = Slice [m], Warnings = Slice []\<rparr>, None)"
    using V2_parse_failure [OF Inl] by (simp add: m_def)
  then show ?thesis by blast
next
  case (Inr insights)
  show ?thesis
  proof (cases "HasPrefix (SchemaVersion_SI (Header_of_SI insights)) ''2.''")
    case True
    from V2_result [OF Inr True] show ?thesis by blast
  next
    case False
    define m where "m = ''Invalid schema version: '' @ SchemaVersion_SI (Header_of_SI insights)
                        @ '' (expected 2.x.x)''"
    have "validateSecurityInsightsV2 L data =
        (\<lparr>IsValid = ([m] = []), Errors = Slice [m], Warnings = Slice []\<rparr>, None)"
      using V2_version_mismatch [OF Inr False] by (simp add: m_def)
    then show ?thesis by blast
  qed
qed

lemma router_shape:
  "\<exists>es ws. validateSecurityInsights L now data =
     (\<lparr>IsValid = (es = []), Errors = Slice es, Warnings = Slice ws\<rparr>, None)"
proof (cases "unmarshal_probe L data")
  case (Inl err)
  define m where "m = ''Invalid YAML: '' @ err"
  have "validateSecurityInsights L now data =
      (\<lparr>IsValid = ([m] = []), Errors = Slice [m], Warnings = Slice []\<rparr>, None)"
    using router_parse_failure [OF Inl, of now] by (simp add: m_def)
  then show ?thesis by blast
next
  case (Inr header)
  show ?thesis
    unfolding router_dispatch [OF Inr]
    using V1_shape [of L now data] V2_shape [of L data] by (simp split: if_splits)
qed

section \<open>Decimal rendering never starts with "2."\<close>

lemma HasPrefix_set: "HasPrefix s p \<Longrightarrow> set p \<subseteq> set s"
  unfolding HasPrefix_def by (metis set_take_subset)

lemma nat_dec_no_dot: "CHR ''.'' \<notin> set (nat_dec n)"
proof (induction n rule: nat_dec.induct)
  case (1 n)
  have digit: "''0123456789'' ! k \<noteq> CHR ''.''" if "k < 10" for k
  proof -
    from that have "''0123456789'' ! k \<in> set ''0123456789''"
      by (intro nth_mem) simp
    then show ?thesis by auto
  qed
  show ?case
  proof (cases "n < 10")
    case True
    then show ?thesis
      using digit [of n] by (subst nat_dec.simps) auto
  next
    case False
    then have "CHR ''.'' \<notin> set (nat_dec (n div 10))"
      by (rule "1.IH")
    moreover have "''0123456789'' ! (n mod 10) \<noteq> CHR ''.''"
      by (rule digit) simp
    ultimately show ?thesis
      using False by (subst nat_dec.simps) auto
  qed
qed

lemma itoa_not_2dot: "\<not> HasPrefix (itoa i) ''2.''"
proof
  assume "HasPrefix (itoa i) ''2.''"
  then have "set ''2.'' \<subseteq> set (itoa i)"
    by (rule HasPrefix_set)
  then have "CHR ''.'' \<in> set (itoa i)"
    by simp
  then show False
    using nat_dec_no_dot by (auto simp add: itoa_def split: if_splits)
qed

section \<open>Routing\<close>

text \<open>
  C1. When the router's \<open>yaml.Unmarshal\<close> into its header struct returns no error, the
  router returns what the V2 validator returns if the rendering of
  \<open>header.schema-version\<close> starts with "2.", and what the V1 validator returns in every
  other case. An absent field (nil), the empty string, a string starting with "1." and
  any integer are such other cases; a string starting with "2." goes to V2. Bytes that
  the router's \<open>Unmarshal\<close> rejects are routed to neither validator, also when they are
  well-formed YAML of a shape that does not fit the struct.
\<close>

theorem validateSecurityInsights_routes_by_prefix:
  assumes "unmarshal_probe L data = Inr header"
  shows "validateSecurityInsights L now data =
           (if HasPrefix (sprint_v (SchemaVersion_probe (Header_of_probe header))) ''2.''
            then validateSecurityInsightsV2 L data
            else validateSecurityInsightsV1 L now data) \<and>
         (SchemaVersion_probe (Header_of_probe header) = AnyNil \<or>
          SchemaVersion_probe (Header_of_probe header) = AnyString [] \<or>
          (\<exists>rest. SchemaVersion_probe (Header_of_probe header) = AnyString (''1.'' @ rest)) \<or>
          (\<exists>i. SchemaVersion_probe (Header_of_probe header) = AnyInt i) \<longrightarrow>
          validateSecurityInsights L now data = validateSecurityInsightsV1 L now data) \<and>
         ((\<exists>rest. SchemaVersion_probe (Header_of_probe header) = AnyString (''2.'' @ rest)) \<longrightarrow>
          validateSecurityInsights L now data = validateSecurityInsightsV2 L data)"
proof (intro conjI impI)
  show "validateSecurityInsights L now data =
           (if HasPrefix (sprint_v (SchemaVersion_probe (Header_of_probe header))) ''2.''
            then validateSecurityInsightsV2 L data
            else validateSecurityInsightsV1 L now data)"
    by (rule router_dispatch [OF assms])
next
  assume "SchemaVersion_probe (Header_of_probe header) = AnyNil \<or>
          SchemaVersion_probe (Header_of_probe header) = AnyString [] \<or>
          (\<exists>rest. SchemaVersion_probe (Header_of_probe header) = AnyString (''1.'' @ rest)) \<or>
          (\<exists>i. SchemaVersion_probe (Header_of_probe header) = AnyInt i)"
  then have "\<not> HasPrefix (sprint_v (SchemaVersion_probe (Header_of_probe header))) ''2.''"
    by (auto simp add: itoa_not_2dot)
  then show "validateSecurityInsights L now data = validateSecurityInsightsV1 L now data"
    by (simp add: router_dispatch [OF assms])
next
  assume "\<exists>rest. SchemaVersion_probe (Header_of_probe header) = AnyString (''2.'' @ rest)"
  then have "HasPrefix (sprint_v (SchemaVersion_probe (Header_of_probe header))) ''2.''"
    by auto
  then show "validateSecurityInsights L now data = validateSecurityInsightsV2 L data"
    by (simp add: router_dispatch [OF assms])
qed

theorem validateSecurityInsights_routes_by_prefix_witness:
  "validateSecurityInsights (libs_SI (example_SI ''active'')) now_2026 [] =
     validateSecurityInsightsV2 (libs_SI (example_SI ''active'')) [] \<and>
   validateSecurityInsights (libs_V1 (example_V1 ''2026-12-31T23:59:59Z'' ''active''))
       now_2026 [] =
     validateSecurityInsightsV1 (libs_V1 (example_V1 ''2026-12-31T23:59:59Z'' ''active''))
       now_2026 [] \<and>
   validateSecurityInsights (stub_libs (Inr (probe_of AnyNil)) (Inr missing_V1)
       (Inl ''not decoded'')) now_2026 [] =
     validateSecurityInsightsV1 (stub_libs (Inr (probe_of AnyNil)) (Inr missing_V1)
       (Inl ''not decoded'')) now_2026 []"
  using
    validateSecurityInsights_routes_by_prefix
      [of "libs_SI (example_SI ''active'')" "[]" "probe_of (AnyString ''2.0.0'')" now_2026]
    validateSecurityInsights_routes_by_prefix
      [of "libs_V1 (example_V1 ''2026-12-31T23:59:59Z'' ''active'')" "[]"
          "probe_of (AnyString ''1.0.0'')" now_2026]
    validateSecurityInsights_routes_by_prefix
      [of "stub_libs (Inr (probe_of AnyNil)) (Inr missing_V1) (Inl ''not decoded'')" "[]"
          "probe_of AnyNil" now_2026]
  by (simp add: libs_SI_def libs_V1_def stub_libs_def probe_of_def example_SI_def
      example_V1_def doc_SI_def doc_V1_def)

text \<open>
  C1 as worded for every well-formed YAML buffer does not hold. The document \<open>hello\<close> is
  well-formed and has no \<open>header.schema-version\<close>, so it would have to go to the V1
  validator; the router's own \<open>Unmarshal\<close> fails on it with a type error, the router
  returns its "Invalid YAML" result at once, and that result is neither the V1
  validator's nor the V2 validator's.
\<close>

theorem validateSecurityInsights_routes_by_prefix_counterexample:
  "validateSecurityInsights hello_libs now_2026 hello =
     (\<lparr>IsValid = False,
       Errors = Slice [''Invalid YAML: yaml: unmarshal errors: line 1: cannot unmarshal !!str hello into struct { Header struct { SchemaVersion interface {} } }''],
       Warnings = Slice []\<rparr>, None) \<and>
   validateSecurityInsights hello_libs now_2026 hello \<noteq>
     validateSecurityInsightsV1 hello_libs now_2026 hello \<and>
   validateSecurityInsights hello_libs now_2026 hello \<noteq>
     validateSecurityInsightsV2 hello_libs hello"
  by (simp add: validateSecurityInsights_def validateSecurityInsightsV1_def
      validateSecurityInsightsV2_def hello_libs_def stub_libs_def append_go_def)

section \<open>Early exits\<close>

text \<open>
  C2. When the V2 validator has parsed the bytes into the si-tooling structure and the
  parsed \<open>header.schema-version\<close> does not start with "2.", it returns at once: the
  result is invalid, holds the single error that names the version and the expected
  2.x.x, and holds no warning; none of the later checks has added anything.
\<close>

theorem validateSecurityInsightsV2_version_mismatch:
  assumes "unmarshal_SI L data = Inr insights"
    and "\<not> HasPrefix (SchemaVersion_SI (Header_of_SI insights)) ''2.''"
  shows "validateSecurityInsightsV2 L data =
     (\<lparr>IsValid = False,
       Errors = Slice [''Invalid schema version: '' @ SchemaVersion_SI (Header_of_SI insights)
                        @ '' (expected 2.x.x)''],
       Warnings = Slice []\<rparr>, None) \<and>
     len_go (Errors (fst (validateSecurityInsightsV2 L data))) = 1 \<and>
     len_go (Warnings (fst (validateSecurityInsightsV2 L data))) = 0"
  by (simp add: V2_version_mismatch [OF assms] len_go_def)

theorem validateSecurityInsightsV2_version_mismatch_witness:
  "validateSecurityInsightsV2
     (libs_SI (doc_SI ''1.0.0'' [] [] [] [] NilSlice [] [])) [] =
   (\<lparr>IsValid = False,
     Errors = Slice [''Invalid schema version: 1.0.0 (expected 2.x.x)''],
     Warnings = Slice []\<rparr>, None)"
  using validateSecurityInsightsV2_version_mismatch
      [of "libs_SI (doc_SI ''1.0.0'' [] [] [] [] NilSlice [] [])" "[]"
          "doc_SI ''1.0.0'' [] [] [] [] NilSlice [] []"]
  by (simp add: libs_SI_def stub_libs_def doc_SI_def)

text \<open>
  C3. Bytes that do not parse give an invalid result with exactly one error, which
  carries the parser's message, and no warning, and nothing else is checked. This holds
  where the router parses, where the V1 validator parses and where the V2 validator
  parses (there the error is worded as a schema validation failure).
\<close>

theorem parse_failure_short_circuits:
  "(unmarshal_probe L data = Inl err \<longrightarrow>
      validateSecurityInsights L now data =
        (\<lparr>IsValid = False, Errors = Slice [''Invalid YAML: '' @ err],
          Warnings = Slice []\<rparr>, None)) \<and>
   (unmarshal_V1 L data = Inl err \<longrightarrow>
      validateSecurityInsightsV1 L now data =
        (\<lparr>IsValid = False, Errors = Slice [''Invalid YAML: '' @ err],
          Warnings = Slice []\<rparr>, None)) \<and>
   (unmarshal_SI L data = Inl err \<longrightarrow>
      validateSecurityInsightsV2 L data =
        (\<lparr>IsValid = False, Errors = Slice [''Schema validation failed: '' @ err],
          Warnings = Slice []\<rparr>, None))"
  using router_parse_failure [of L data err now] V1_parse_failure [of L data err now]
    V2_parse_failure [of L data err]
  by blast

theorem parse_failure_short_circuits_witness:
  "validateSecurityInsights
     (stub_libs (Inl ''yaml: mapping values are not allowed in this context'')
        (Inl ''yaml: mapping values are not allowed in this context'')
        (Inl ''yaml: mapping values are not allowed in this context'')) 0 [] =
     (\<lparr>IsValid = False,
       Errors = Slice [''Invalid YAML: yaml: mapping values are not allowed in this context''],
       Warnings = Slice []\<rparr>, None) \<and>
   validateSecurityInsightsV1
     (stub_libs (Inl ''yaml: mapping values are not allowed in this context'')
        (Inl ''yaml: mapping values are not allowed in this context'')
        (Inl ''yaml: mapping values are not allowed in this context'')) 0 [] =
     (\<lparr>IsValid = False,
       Errors = Slice [''Invalid YAML: yaml: mapping values are not allowed in this context''],
       Warnings = Slice []\<rparr>, None) \<and>
   validateSecurityInsightsV2
     (stub_libs (Inl ''yaml: mapping values are not allowed in this context'')
        (Inl ''yaml: mapping values are not allowed in this context'')
        (Inl ''yaml: mapping values are not allowed in this context'')) [] =
     (\<lparr>IsValid = False,
       Errors = Slice [''Schema validation failed: yaml: mapping values are not allowed in this context''],
       Warnings = Slice []\<rparr>, None)"
  using parse_failure_short_circuits
      [of "stub_libs (Inl ''yaml: mapping values are not allowed in this context'')
            (Inl ''yaml: mapping values are not allowed in this context'')
            (Inl ''yaml: mapping values are not allowed in this context'')"
          "[]" "''yaml: mapping values are not allowed in this context''" 0]
  by (simp add: stub_libs_def)

section \<open>Invariants of the result\<close>

text \<open>
  C4. Whatever the bytes and whichever path is taken (parse failure in the router, V1,
  V2), the returned result is valid exactly when its error list is empty. The warning
  list does not occur in the equation: warnings have no influence on \<open>IsValid\<close>.
\<close>

theorem validateSecurityInsights_valid_iff_no_errors:
  "IsValid (fst (validateSecurityInsights L now data)) =
     (elems (Errors (fst (validateSecurityInsights L now data))) = [])"
proof -
  from router_shape [of L now data] obtain es ws where
    "validateSecurityInsights L now data =
       (\<lparr>IsValid = (es = []), Errors = Slice es, Warnings = Slice ws\<rparr>, None)"
    by blast
  then show ?thesis by simp
qed

text \<open>
  C10. The two lists of every result are non-nil slices, on every path: they start as
  empty non-nil slices and only \<open>append\<close> touches them. A valid result has the empty,
  non-nil error list.
\<close>

theorem validateSecurityInsights_lists_non_nil:
  "Errors (fst (validateSecurityInsights L now data)) \<noteq> NilSlice \<and>
   Warnings (fst (validateSecurityInsights L now data)) \<noteq> NilSlice \<and>
   (IsValid (fst (validateSecurityInsights L now data)) \<longrightarrow>
      Errors (fst (validateSecurityInsights L now data)) = Slice [])"
proof -
  from router_shape [of L now data] obtain es ws where
    "validateSecurityInsights L now data =
       (\<lparr>IsValid = (es = []), Errors = Slice es, Warnings = Slice ws\<rparr>, None)"
    by blast
  then show ?thesis by simp
qed

theorem validateSecurityInsights_lists_non_nil_witness:
  "IsValid (fst (validateSecurityInsights
       (libs_V1 (example_V1 ''2026-12-31T23:59:59Z'' ''active'')) now_2026 [])) \<and>
   Errors (fst (validateSecurityInsights
       (libs_V1 (example_V1 ''2026-12-31T23:59:59Z'' ''active'')) now_2026 [])) = Slice [] \<and>
   Warnings (fst (validateSecurityInsights
       (libs_V1 (example_V1 ''2026-12-31T23:59:59Z'' ''active'')) now_2026 [])) \<noteq> NilSlice"
proof -
  have "IsValid (fst (validateSecurityInsights
       (libs_V1 (example_V1 ''2026-12-31T23:59:59Z'' ''active'')) now_2026 []))"
    by (simp add: validateSecurityInsights_def validateSecurityInsightsV1_def libs_V1_def
        example_V1_def now_2026_def stub_libs_def probe_of_def doc_V1_def stub_time_Parse_def
        validStatuses_def len_go_def Let_def)
  with validateSecurityInsights_lists_non_nil
      [of "libs_V1 (example_V1 ''2026-12-31T23:59:59Z'' ''active'')" now_2026 "[]"]
  show ?thesis by blast
qed

section \<open>Required fields\<close>

text \<open>
  C5. On a parsed V1 document the error list is the list of the failed required-field
  checks, in the order of the checks: one error per empty field among
  \<open>header.schema-version\<close>, \<open>header.project-url\<close>, \<open>header.expiration-date\<close> and
  \<open>project-lifecycle.status\<close>, none of them stopping the others. With all four empty
  the result is invalid and holds exactly these four errors.
\<close>

theorem validateSecurityInsightsV1_collects_errors:
  assumes "unmarshal_V1 L data = Inr si"
  shows "Errors (fst (validateSecurityInsightsV1 L now data)) = Slice (
           (if SchemaVersion_V1 (Header_of_V1 si) = []
            then [''Missing required field: header.schema-version''] else []) @
           (if ProjectURL_V1 (Header_of_V1 si) = []
            then [''Missing required field: header.project-url''] else []) @
           (if ExpirationDate_V1 (Header_of_V1 si) = []
            then [''Missing required field: header.expiration-date''] else []) @
           (if Status_V1 (ProjectLifecycle_of_V1 si) = []
            then [''Missing required field: project-lifecycle.status''] else [])) \<and>
         (SchemaVersion_V1 (Header_of_V1 si) = [] \<and> ProjectURL_V1 (Header_of_V1 si) = [] \<and>
          ExpirationDate_V1 (Header_of_V1 si) = [] \<and>
          Status_V1 (ProjectLifecycle_of_V1 si) = [] \<longrightarrow>
            Errors (fst (validateSecurityInsightsV1 L now data)) =
              Slice [''Missing required field: header.schema-version'',
                     ''Missing required field: header.project-url'',
                     ''Missing required field: header.expiration-date'',
                     ''Missing required field: project-lifecycle.status''] \<and>
            len_go (Errors (fst (validateSecurityInsightsV1 L now data))) = 4 \<and>
            \<not> IsValid (fst (validateSecurityInsightsV1 L now data)))"
proof -
  from V1_result [OF assms, of now] obtain cw where
    "validateSecurityInsightsV1 L now data =
      (\<lparr>IsValid = (errors_V1 si = []), Errors = Slice (errors_V1 si),
        Warnings = Slice (warnings_V1 L now si @ cw)\<rparr>, None)"
    by blast
  then have "Errors (fst (validateSecurityInsightsV1 L now data)) = Slice (errors_V1 si)"
    and "IsValid (fst (validateSecurityInsightsV1 L now data)) = (errors_V1 si = [])"
    by simp_all
  then show ?thesis
    by (simp add: errors_V1_def len_go_def)
qed

theorem validateSecurityInsightsV1_collects_errors_witness:
  "Errors (fst (validateSecurityInsightsV1 (libs_V1 missing_V1) now_2026 [])) =
     Slice [''Missing required field: header.schema-version'',
            ''Missing required field: header.project-url'',
            ''Missing required field: header.expiration-date'',
            ''Missing required field: project-lifecycle.status''] \<and>
   len_go (Errors (fst (validateSecurityInsightsV1 (libs_V1 missing_V1) now_2026 []))) = 4 \<and>
   \<not> IsValid (fst (validateSecurityInsightsV1 (libs_V1 missing_V1) now_2026 []))"
  using validateSecurityInsightsV1_collects_errors
      [of "libs_V1 missing_V1" "[]" missing_V1 now_2026]
  by (simp add: libs_V1_def stub_libs_def missing_V1_def doc_V1_def len_go_def)

text \<open>
  C8. On a V2 document that has parsed and whose version starts with "2.", the error list
  is the list of the failed required-field checks in the order of the checks: one error
  per empty field among \<open>header.url\<close>, \<open>repository.url\<close> and \<open>repository.status\<close>. With
  all three empty the result is invalid and holds exactly these three errors.
\<close>

theorem validateSecurityInsightsV2_collects_errors:
  assumes "unmarshal_SI L data = Inr insights"
    and "HasPrefix (SchemaVersion_SI (Header_of_SI insights)) ''2.''"
  shows "Errors (fst (validateSecurityInsightsV2 L data)) = Slice (
           (if URL_SI (Header_of_SI insights) = []
            then [''Missing required field: header.url''] else []) @
           (if RepositoryURL_SI (Repository_of_SI insights) = []
            then [''Missing required field: repository.url''] else []) @
           (if Status_SI (Repository_of_SI insights) = []
            then [''Missing required field: repository.status''] else [])) \<and>
         (URL_SI (Header_of_SI insights) = [] \<and>
          RepositoryURL_SI (Repository_of_SI insights) = [] \<and>
          Status_SI (Repository_of_SI insights) = [] \<longrightarrow>
            Errors (fst (validateSecurityInsightsV2 L data)) =
              Slice [''Missing required field: header.url'',
                     ''Missing required field: repository.url'',
                     ''Missing required field: repository.status''] \<and>
            len_go (Errors (fst (validateSecurityInsightsV2 L data))) = 3 \<and>
            \<not> IsValid (fst (validateSecurityInsightsV2 L data)))"
proof -
  from V2_result [OF assms] obtain aw where
    "validateSecurityInsightsV2 L data =
      (\<lparr>IsValid = (errors_V2 insights = []), Errors = Slice (errors_V2 insights),
        Warnings = Slice (warnings_V2_project insights @ aw @ warnings_V2_status insights)\<rparr>,
       None)"
    by blast
  then have "Errors (fst (validateSecurityInsightsV2 L data)) = Slice (errors_V2 insights)"
    and "IsValid (fst (validateSecurityInsightsV2 L data)) = (errors_V2 insights = [])"
    by simp_all
  then show ?thesis
    by (simp add: errors_V2_def len_go_def)
qed

theorem validateSecurityInsightsV2_collects_errors_witness:
  "Errors (fst (validateSecurityInsightsV2 (libs_SI missing_SI) [])) =
     Slice [''Missing required field: header.url'',
            ''Missing required field: repository.url'',
            ''Missing required field: repository.status''] \<and>
   len_go (Errors (fst (validateSecurityInsightsV2 (libs_SI missing_SI) []))) = 3 \<and>
   \<not> IsValid (fst (validateSecurityInsightsV2 (libs_SI missing_SI) []))"
  using validateSecurityInsightsV2_collects_errors
      [of "libs_SI missing_SI" "[]" missing_SI]
  by (simp add: libs_SI_def stub_libs_def missing_SI_def doc_SI_def len_go_def)

section \<open>Checks that only warn\<close>

lemma contact_warnings_filtered:
  assumes "\<forall>w \<in> set cw. w = ''No security-contacts specified'' \<or> HasPrefix w ''Security contact ''"
  shows "filter (\<lambda>w. w = ''Invalid expiration-date format (should be RFC3339)'' \<or>
                     w = ''File has expired - please update expiration-date'') cw = []"
  using assms by (auto simp add: filter_empty_conv)

text \<open>
  C6. On a parsed V1 document whose \<open>header.expiration-date\<close> is not empty, the field
  contributes no error: the errors are those of the other three required fields, and the
  result is valid exactly when those three are present. Among the warnings, the ones about
  the expiration date are: the format warning alone when the value does not parse as
  RFC3339; the expiry warning alone when it parses to an instant before the current time;
  none when it parses to the current time or later.
\<close>

theorem validateSecurityInsightsV1_expiration_date:
  assumes "unmarshal_V1 L data = Inr si"
    and "ExpirationDate_V1 (Header_of_V1 si) \<noteq> []"
  shows "Errors (fst (validateSecurityInsightsV1 L now data)) = Slice (
           (if SchemaVersion_V1 (Header_of_V1 si) = []
            then [''Missing required field: header.schema-version''] else []) @
           (if ProjectURL_V1 (Header_of_V1 si) = []
            then [''Missing required field: header.project-url''] else []) @
           (if Status_V1 (ProjectLifecycle_of_V1 si) = []
            then [''Missing required field: project-lifecycle.status''] else [])) \<and>
         IsValid (fst (validateSecurityInsightsV1 L now data)) =
           (SchemaVersion_V1 (Header_of_V1 si) \<noteq> [] \<and> ProjectURL_V1 (Header_of_V1 si) \<noteq> [] \<and>
            Status_V1 (ProjectLifecycle_of_V1 si) \<noteq> []) \<and>
         (time_Parse_RFC3339 L (ExpirationDate_V1 (Header_of_V1 si)) = Inl err \<longrightarrow>
            filter (\<lambda>w. w = ''Invalid expiration-date format (should be RFC3339)'' \<or>
                        w = ''File has expired - please update expiration-date'')
              (elems (Warnings (fst (validateSecurityInsightsV1 L now data)))) =
            [''Invalid expiration-date format (should be RFC3339)'']) \<and>
         (time_Parse_RFC3339 L (ExpirationDate_V1 (Header_of_V1 si)) = Inr t \<and> t < now \<longrightarrow>
            filter (\<lambda>w. w = ''Invalid expiration-date format (should be RFC3339)'' \<or>
                        w = ''File has expired - please update expiration-date'')
              (elems (Warnings (fst (validateSecurityInsightsV1 L now data)))) =
            [''File has expired - please update expiration-date'']) \<and>
         (time_Parse_RFC3339 L (ExpirationDate_V1 (Header_of_V1 si)) = Inr t \<and> now \<le> t \<longrightarrow>
            filter (\<lambda>w. w = ''Invalid expiration-date format (should be RFC3339)'' \<or>
                        w = ''File has expired - please update expiration-date'')
              (elems (Warnings (fst (validateSecurityInsightsV1 L now data)))) = [])"
proof -
  from V1_result [OF assms(1), of now] obtain cw where
    run: "validateSecurityInsightsV1 L now data =
      (\<lparr>IsValid = (errors_V1 si = []), Errors = Slice (errors_V1 si),
        Warnings = Slice (warnings_V1 L now si @ cw)\<rparr>, None)"
    and cw: "\<forall>w \<in> set cw. w = ''No security-contacts specified'' \<or>
                            HasPrefix w ''Security contact ''"
    by blast
  have E: "Errors (fst (validateSecurityInsightsV1 L now data)) = Slice (errors_V1 si)"
    and V: "IsValid (fst (validateSecurityInsightsV1 L now data)) = (errors_V1 si = [])"
    and W: "elems (Warnings (fst (validateSecurityInsightsV1 L now data))) =
              warnings_V1 L now si @ cw"
    by (simp_all add: run)
  show ?thesis
    unfolding E V W
  proof (intro conjI impI)
    show "Slice (errors_V1 si) = Slice (
           (if SchemaVersion_V1 (Header_of_V1 si) = []
            then [''Missing required field: header.schema-version''] else []) @
           (if ProjectURL_V1 (Header_of_V1 si) = []
            then [''Missing required field: header.project-url''] else []) @
           (if Status_V1 (ProjectLifecycle_of_V1 si) = []
            then [''Missing required field: project-lifecycle.status''] else []))"
      by (simp add: errors_V1_def assms(2))
    show "(errors_V1 si = []) =
           (SchemaVersion_V1 (Header_of_V1 si) \<noteq> [] \<and> ProjectURL_V1 (Header_of_V1 si) \<noteq> [] \<and>
            Status_V1 (ProjectLifecycle_of_V1 si) \<noteq> [])"
      by (simp add: errors_V1_empty_iff assms(2))
  next
    assume "time_Parse_RFC3339 L (ExpirationDate_V1 (Header_of_V1 si)) = Inl err"
    then show "filter (\<lambda>w. w = ''Invalid expiration-date format (should be RFC3339)'' \<or>
                        w = ''File has expired - please update expiration-date'')
              (warnings_V1 L now si @ cw) =
            [''Invalid expiration-date format (should be RFC3339)'']"
      by (simp add: warnings_V1_def assms(2) contact_warnings_filtered [OF cw])
  next
    assume "time_Parse_RFC3339 L (ExpirationDate_V1 (Header_of_V1 si)) = Inr t \<and> t < now"
    then show "filter (\<lambda>w. w = ''Invalid expiration-date format (should be RFC3339)'' \<or>
                        w = ''File has expired - please update expiration-date'')
              (warnings_V1 L now si @ cw) =
            [''File has expired - please update expiration-date'']"
      by (simp add: warnings_V1_def assms(2) contact_warnings_filtered [OF cw])
  next
    assume "time_Parse_RFC3339 L (ExpirationDate_V1 (Header_of_V1 si)) = Inr t \<and> now \<le> t"
    then show "filter (\<lambda>w. w = ''Invalid expiration-date format (should be RFC3339)'' \<or>
                        w = ''File has expired - please update expiration-date'')
              (warnings_V1 L now si @ cw) = []"
      by (simp add: warnings_V1_def assms(2) contact_warnings_filtered [OF cw])
  qed
qed

theorem validateSecurityInsightsV1_expiration_date_witness:
  "(filter (\<lambda>w. w = ''Invalid expiration-date format (should be RFC3339)'' \<or>
               w = ''File has expired - please update expiration-date'')
      (elems (Warnings (fst (validateSecurityInsightsV1
         (libs_V1 (example_V1 ''31 December 2026'' ''active'')) now_2026 [])))) =
      [''Invalid expiration-date format (should be RFC3339)''] \<and>
    IsValid (fst (validateSecurityInsightsV1
         (libs_V1 (example_V1 ''31 December 2026'' ''active'')) now_2026 []))) \<and>
   (filter (\<lambda>w. w = ''Invalid expiration-date format (should be RFC3339)'' \<or>
               w = ''File has expired - please update expiration-date'')
      (elems (Warnings (fst (validateSecurityInsightsV1
         (libs_V1 (example_V1 ''2020-01-01T00:00:00Z'' ''active'')) now_2026 [])))) =
      [''File has expired - please update expiration-date''] \<and>
    IsValid (fst (validateSecurityInsightsV1
         (libs_V1 (example_V1 ''2020-01-01T00:00:00Z'' ''active'')) now_2026 []))) \<and>
   (filter (\<lambda>w. w = ''Invalid expiration-date format (should be RFC3339)'' \<or>
               w = ''File has expired - please update expiration-date'')
      (elems (Warnings (fst (validateSecurityInsightsV1
         (libs_V1 (example_V1 ''2026-12-31T23:59:59Z'' ''active'')) now_2026 [])))) = [] \<and>
    IsValid (fst (validateSecurityInsightsV1
         (libs_V1 (example_V1 ''2026-12-31T23:59:59Z'' ''active'')) now_2026 [])))"
  using
    validateSecurityInsightsV1_expiration_date
      [where L = "libs_V1 (example_V1 ''31 December 2026'' ''active'')" and data = "[]"
         and now = now_2026 and si = "example_V1 ''31 December 2026'' ''active''"
         and err = "''parsing time: cannot parse as RFC3339''" and t = 0]
    validateSecurityInsightsV1_expiration_date
      [where L = "libs_V1 (example_V1 ''2020-01-01T00:00:00Z'' ''active'')" and data = "[]"
         and now = now_2026 and si = "example_V1 ''2020-01-01T00:00:00Z'' ''active''"
         and err = "[]" and t = 1577836800000000000]
    validateSecurityInsightsV1_expiration_date
      [where L = "libs_V1 (example_V1 ''2026-12-31T23:59:59Z'' ''active'')" and data = "[]"
         and now = now_2026 and si = "example_V1 ''2026-12-31T23:59:59Z'' ''active''"
         and err = "[]" and t = 1798761599000000000]
  by (simp add: libs_V1_def stub_libs_def example_V1_def doc_V1_def stub_time_Parse_def
      now_2026_def)

text \<open>
  C7. A non-empty status outside active, archived, concept, moved, wip is reported as a
  warning that names the value, and never as an error. For V1
  (\<open>project-lifecycle.status\<close>) the errors are those of the other three required fields
  and the result is valid exactly when those are present; for V2 (\<open>repository.status\<close>,
  on a parsed document whose version starts with "2.") the errors are those of
  \<open>header.url\<close> and \<open>repository.url\<close> and the result is valid exactly when those two
  are present.
\<close>

theorem unusual_status_is_a_warning:
  "(unmarshal_V1 L data = Inr si \<and>
    Status_V1 (ProjectLifecycle_of_V1 si) \<noteq> [] \<and>
    Status_V1 (ProjectLifecycle_of_V1 si) \<notin>
      {''active'', ''archived'', ''concept'', ''moved'', ''wip''} \<longrightarrow>
      (''Unusual project-lifecycle.status: '' @ Status_V1 (ProjectLifecycle_of_V1 si) @
         '' (expected one of: active, archived, concept, moved, wip)'')
        \<in> set (elems (Warnings (fst (validateSecurityInsightsV1 L now data)))) \<and>
      Errors (fst (validateSecurityInsightsV1 L now data)) = Slice (
        (if SchemaVersion_V1 (Header_of_V1 si) = []
         then [''Missing required field: header.schema-version''] else []) @
        (if ProjectURL_V1 (Header_of_V1 si) = []
         then [''Missing required field: header.project-url''] else []) @
        (if ExpirationDate_V1 (Header_of_V1 si) = []
         then [''Missing required field: header.expiration-date''] else [])) \<and>
      IsValid (fst (validateSecurityInsightsV1 L now data)) =
        (SchemaVersion_V1 (Header_of_V1 si) \<noteq> [] \<and> ProjectURL_V1 (Header_of_V1 si) \<noteq> [] \<and>
         ExpirationDate_V1 (Header_of_V1 si) \<noteq> [])) \<and>
   (unmarshal_SI L data = Inr insights \<and>
    HasPrefix (SchemaVersion_SI (Header_of_SI insights)) ''2.'' \<and>
    Status_SI (Repository_of_SI insights) \<noteq> [] \<and>
    Status_SI (Repository_of_SI insights) \<notin>
      {''active'', ''archived'', ''concept'', ''moved'', ''wip''} \<longrightarrow>
      (''Unusual repository.status: '' @ Status_SI (Repository_of_SI insights) @
         '' (expected one of: active, archived, concept, moved, wip)'')
        \<in> set (elems (Warnings (fst (validateSecurityInsightsV2 L data)))) \<and>
      Errors (fst (validateSecurityInsightsV2 L data)) = Slice (
        (if URL_SI (Header_of_SI insights) = []
         then [''Missing required field: header.url''] else []) @
        (if RepositoryURL_SI (Repository_of_SI insights) = []
         then [''Missing required field: repository.url''] else [])) \<and>
      IsValid (fst (validateSecurityInsightsV2 L data)) =
        (URL_SI (Header_of_SI insights) \<noteq> [] \<and>
         RepositoryURL_SI (Repository_of_SI insights) \<noteq> []))"
proof (intro conjI impI; elim conjE)
  assume parsed: "unmarshal_V1 L data = Inr si"
    and nonempty: "Status_V1 (ProjectLifecycle_of_V1 si) \<noteq> []"
    and unusual: "Status_V1 (ProjectLifecycle_of_V1 si) \<notin>
      {''active'', ''archived'', ''concept'', ''moved'', ''wip''}"
  from V1_result [OF parsed, of now] obtain cw where
    run: "validateSecurityInsightsV1 L now data =
      (\<lparr>IsValid = (errors_V1 si = []), Errors = Slice (errors_V1 si),
        Warnings = Slice (warnings_V1 L now si @ cw)\<rparr>, None)"
    by blast
  have E: "Errors (fst (validateSecurityInsightsV1 L now data)) = Slice (errors_V1 si)"
    and V: "IsValid (fst (validateSecurityInsightsV1 L now data)) = (errors_V1 si = [])"
    and W: "elems (Warnings (fst (validateSecurityInsightsV1 L now data))) =
              warnings_V1 L now si @ cw"
    by (simp_all add: run)
  show "(''Unusual project-lifecycle.status: '' @ Status_V1 (ProjectLifecycle_of_V1 si) @
         '' (expected one of: active, archived, concept, moved, wip)'')
        \<in> set (elems (Warnings (fst (validateSecurityInsightsV1 L now data))))"
    unfolding W using nonempty unusual by (simp add: warnings_V1_def validStatuses_def)
  show "Errors (fst (validateSecurityInsightsV1 L now data)) = Slice (
        (if SchemaVersion_V1 (Header_of_V1 si) = []
         then [''Missing required field: header.schema-version''] else []) @
        (if ProjectURL_V1 (Header_of_V1 si) = []
         then [''Missing required field: header.project-url''] else []) @
        (if ExpirationDate_V1 (Header_of_V1 si) = []
         then [''Missing required field: header.expiration-date''] else []))"
    unfolding E using nonempty by (simp add: errors_V1_def)
  show "IsValid (fst (validateSecurityInsightsV1 L now data)) =
        (SchemaVersion_V1 (Header_of_V1 si) \<noteq> [] \<and> ProjectURL_V1 (Header_of_V1 si) \<noteq> [] \<and>
         ExpirationDate_V1 (Header_of_V1 si) \<noteq> [])"
    unfolding V using nonempty by (simp add: errors_V1_empty_iff)
next
  assume parsed: "unmarshal_SI L data = Inr insights"
    and version: "HasPrefix (SchemaVersion_SI (Header_of_SI insights)) ''2.''"
    and nonempty: "Status_SI (Repository_of_SI insights) \<noteq> []"
    and unusual: "Status_SI (Repository_of_SI insights) \<notin>
      {''active'', ''archived'', ''concept'', ''moved'', ''wip''}"
  from V2_result [OF parsed version] obtain aw where
    run: "validateSecurityInsightsV2 L data =
      (\<lparr>IsValid = (errors_V2 insights = []), Errors = Slice (errors_V2 insights),
        Warnings = Slice (warnings_V2_project insights @ aw @ warnings_V2_status insights)\<rparr>,
       None)"
    by blast
  have E: "Errors (fst (validateSecurityInsightsV2 L data)) = Slice (errors_V2 insights)"
    and V: "IsValid (fst (validateSecurityInsightsV2 L data)) = (errors_V2 insights = [])"
    and W: "elems (Warnings (fst (validateSecurityInsightsV2 L data))) =
              warnings_V2_project insights @ aw @ warnings_V2_status insights"
    by (simp_all add: run)
  show "(''Unusual repository.status: '' @ Status_SI (Repository_of_SI insights) @
         '' (expected one of: active, archived, concept, moved, wip)'')
        \<in> set (elems (Warnings (fst (validateSecurityInsightsV2 L data))))"
    unfolding W using nonempty unusual by (simp add: warnings_V2_status_def validStatuses_def)
  show "Errors (fst (validateSecurityInsightsV2 L data)) = Slice (
        (if URL_SI (Header_of_SI insights) = []
         then [''Missing required field: header.url''] else []) @
        (if RepositoryURL_SI (Repository_of_SI insights) = []
         then [''Missing required field: repository.url''] else []))"
    unfolding E using nonempty by (simp add: errors_V2_def)
  show "IsValid (fst (validateSecurityInsightsV2 L data)) =
        (URL_SI (Header_of_SI insights) \<noteq> [] \<and>
         RepositoryURL_SI (Repository_of_SI insights) \<noteq> [])"
    unfolding V using nonempty by (simp add: errors_V2_empty_iff)
qed

theorem unusual_status_is_a_warning_witness:
  "''Unusual project-lifecycle.status: experimental (expected one of: active, archived, concept, moved, wip)''
     \<in> set (elems (Warnings (fst (validateSecurityInsightsV1
          (stub_libs (Inl ''not decoded'') (Inr (example_V1 ''2026-12-31T23:59:59Z'' ''experimental''))
             (Inr (example_SI ''experimental''))) now_2026 [])))) \<and>
   IsValid (fst (validateSecurityInsightsV1
          (stub_libs (Inl ''not decoded'') (Inr (example_V1 ''2026-12-31T23:59:59Z'' ''experimental''))
             (Inr (example_SI ''experimental''))) now_2026 [])) \<and>
   ''Unusual repository.status: experimental (expected one of: active, archived, concept, moved, wip)''
     \<in> set (elems (Warnings (fst (validateSecurityInsightsV2
          (stub_libs (Inl ''not decoded'') (Inr (example_V1 ''2026-12-31T23:59:59Z'' ''experimental''))
             (Inr (example_SI ''experimental''))) [])))) \<and>
   IsValid (fst (validateSecurityInsightsV2
          (stub_libs (Inl ''not decoded'') (Inr (example_V1 ''2026-12-31T23:59:59Z'' ''experimental''))
             (Inr (example_SI ''experimental''))) []))"
  using unusual_status_is_a_warning
      [of "stub_libs (Inl ''not decoded'')
             (Inr (example_V1 ''2026-12-31T23:59:59Z'' ''experimental''))
             (Inr (example_SI ''experimental''))"
          "[]" "example_V1 ''2026-12-31T23:59:59Z'' ''experimental''" now_2026
          "example_SI ''experimental''"]
  by (simp add: stub_libs_def example_V1_def example_SI_def doc_V1_def doc_SI_def)

section \<open>Dependence on the clock\<close>

lemma expirationStep_same:
  assumes "\<And>t. d \<noteq> [] \<Longrightarrow> time_Parse_RFC3339 L d = Inr t \<Longrightarrow> (t < now1) = (t < now2)"
  shows "expirationStep L now1 d result = expirationStep L now2 d result"
  using assms by (auto simp add: expirationStep_def split: sum.splits)

text \<open>
  C9. The result is a function of the bytes and of the current time: the model has no
  other input, and the V2 validator and both parse-failure paths do not take the time at
  all. Two readings of the clock give the same result unless the bytes are routed to V1,
  parse there, carry a non-empty expiration date that parses as RFC3339, and that date
  lies before one reading and not before the other.
\<close>

theorem validateSecurityInsights_time_dependence:
  assumes "\<And>header si t.
      unmarshal_probe L data = Inr header \<Longrightarrow>
      \<not> HasPrefix (sprint_v (SchemaVersion_probe (Header_of_probe header))) ''2.'' \<Longrightarrow>
      unmarshal_V1 L data = Inr si \<Longrightarrow>
      ExpirationDate_V1 (Header_of_V1 si) \<noteq> [] \<Longrightarrow>
      time_Parse_RFC3339 L (ExpirationDate_V1 (Header_of_V1 si)) = Inr t \<Longrightarrow>
      (t < now1) = (t < now2)"
  shows "validateSecurityInsights L now1 data = validateSecurityInsights L now2 data"
proof (cases "unmarshal_probe L data")
  case (Inl err)
  then show ?thesis by (simp add: router_parse_failure)
next
  case probe: (Inr header)
  show ?thesis
  proof (cases "HasPrefix (sprint_v (SchemaVersion_probe (Header_of_probe header))) ''2.''")
    case True
    then show ?thesis by (simp add: router_dispatch [OF probe])
  next
    case v1: False
    have "validateSecurityInsightsV1 L now1 data = validateSecurityInsightsV1 L now2 data"
    proof (cases "unmarshal_V1 L data")
      case (Inl err)
      then show ?thesis by (simp add: V1_parse_failure)
    next
      case parsed: (Inr si)
      have "expirationStep L now1 (ExpirationDate_V1 (Header_of_V1 si)) result =
            expirationStep L now2 (ExpirationDate_V1 (Header_of_V1 si)) result" for result
        by (rule expirationStep_same) (rule assms [OF probe v1 parsed])
      then show ?thesis
        by (simp only: V1_steps [OF parsed])
    qed
    with v1 show ?thesis by (simp add: router_dispatch [OF probe])
  qed
qed

theorem validateSecurityInsights_time_dependence_witness:
  "validateSecurityInsights (libs_V1 (example_V1 ''2020-01-01T00:00:00Z'' ''active''))
     now_2026 [] =
   validateSecurityInsights (libs_V1 (example_V1 ''2020-01-01T00:00:00Z'' ''active''))
     (now_2026 + 1) []"
  by (rule validateSecurityInsights_time_dependence)
    (auto simp add: libs_V1_def stub_libs_def example_V1_def doc_V1_def stub_time_Parse_def
      now_2026_def)

end
